theory Spec2Isabelle
  imports Complex_Main "HOL-Library.Sublist"
begin

section \<open>JavaScript values used by the two route handlers\<close>

text \<open>
  Strings are \<open>string\<close>: one \<open>char\<close> stands for one code unit below \<open>0x100\<close>. An optional
  field of a request payload (\<open>field?: T\<close>) is a \<open>T option\<close>; \<open>None\<close> is \<open>undefined\<close>.
  A string is truthy when it is not empty.
\<close>

definition isWhiteSpace :: "char \<Rightarrow> bool" where
  \<comment> \<open>White space and line terminators of ECMAScript among the code units below \<open>0x100\<close>:
      TAB, LF, VT, FF, CR, SP, NBSP.\<close>
  "isWhiteSpace c \<longleftrightarrow>
     c \<in> set [CHR 0x09, CHR 0x0A, CHR 0x0B, CHR 0x0C, CHR 0x0D, CHR 0x20, CHR 0xA0]"

definition trim :: "string \<Rightarrow> string" where
  \<comment> \<open>\<open>String.prototype.trim\<close>\<close>
  "trim s = rev (dropWhile isWhiteSpace (rev (dropWhile isWhiteSpace s)))"

text \<open>
  A JavaScript number. The handlers only compare numbers and test them for finiteness,
  so a finite double is its real value (both zeros are \<open>Finite 0\<close>).
\<close>

datatype number = Finite real | PosInf | NegInf | NaN

fun Number_isFinite :: "number \<Rightarrow> bool" where
  "Number_isFinite (Finite x) = True"
| "Number_isFinite PosInf = False"
| "Number_isFinite NegInf = False"
| "Number_isFinite NaN = False"

fun Math_min :: "number \<Rightarrow> number \<Rightarrow> number" where
  "Math_min NaN b = NaN"
| "Math_min a NaN = NaN"
| "Math_min NegInf b = NegInf"
| "Math_min a NegInf = NegInf"
| "Math_min PosInf b = b"
| "Math_min a PosInf = a"
| "Math_min (Finite x) (Finite y) = Finite (min x y)"

fun Math_max :: "number \<Rightarrow> number \<Rightarrow> number" where
  "Math_max NaN b = NaN"
| "Math_max a NaN = NaN"
| "Math_max PosInf b = PosInf"
| "Math_max a PosInf = PosInf"
| "Math_max NegInf b = b"
| "Math_max a NegInf = a"
| "Math_max (Finite x) (Finite y) = Finite (max x y)"

fun truthy_number :: "number \<Rightarrow> bool" where
  \<comment> \<open>\<open>ToBoolean\<close> on a number: false for \<open>+0\<close>, \<open>-0\<close> and \<open>NaN\<close> only.\<close>
  "truthy_number (Finite x) = (x \<noteq> 0)"
| "truthy_number PosInf = True"
| "truthy_number NegInf = True"
| "truthy_number NaN = False"

text \<open>
  The value found under \<open>json?.metrics?.inference\<close> in the vendor's reply: absent,
  \<open>null\<close>, a boolean, a number, or a string, array or object. The last kind goes through
  the runtime's conversion to a primitive and its string-to-number conversion: such a
  value is \<open>Converts n\<close>, given with the number \<open>n\<close> the conversion yields for it, or
  \<open>Inconvertible\<close> when the conversion throws a \<open>TypeError\<close> (an object whose own
  \<open>toString\<close> and \<open>valueOf\<close> properties are not functions).
\<close>

datatype jsvalue = Undefined | Null | Boolean bool | Num number | Converts number | Inconvertible

fun Number_js :: "jsvalue \<Rightarrow> number option" where
  \<comment> \<open>\<open>Number(v)\<close>; \<open>None\<close> when it throws\<close>
  "Number_js Undefined = Some NaN"
| "Number_js Null = Some (Finite 0)"
| "Number_js (Boolean b) = Some (Finite (if b then 1 else 0))"
| "Number_js (Num n) = Some n"
| "Number_js (Converts n) = Some n"
| "Number_js Inconvertible = None"

definition or_undefined :: "number \<Rightarrow> number option" where
  \<comment> \<open>\<open>n || undefined\<close>\<close>
  "or_undefined n = (if truthy_number n then Some n else None)"

definition or_else :: "string option \<Rightarrow> string \<Rightarrow> string" where
  \<comment> \<open>\<open>s || d\<close> for an optional string \<open>s\<close>\<close>
  "or_else s d = (case s of None \<Rightarrow> d | Some v \<Rightarrow> if v \<noteq> [] then v else d)"

definition falsy :: "string option \<Rightarrow> bool" where
  \<comment> \<open>\<open>!s\<close> for an optional string \<open>s\<close>\<close>
  "falsy s \<longleftrightarrow> (case s of None \<Rightarrow> True | Some v \<Rightarrow> v = [])"

text \<open>
  The result of \<open>await request.json()\<close>: it throws, or it yields the JSON value \<open>null\<close>,
  or it yields a value whose properties can be read. A JSON number, string, boolean or
  array has none of the payload's fields and is a \<open>Parsed\<close> payload with every field
  absent. Reading a property of \<open>null\<close> throws a \<open>TypeError\<close>.
\<close>

datatype 'p body = Unparseable | ParsedNull | Parsed 'p

text \<open>
  A property of a response body as \<open>NextResponse.json\<close> writes it: \<open>JSON.stringify\<close>
  leaves out a property that is \<open>undefined\<close>, and writes \<open>null\<close> for \<open>null\<close> and for a
  number that is not finite.
\<close>

datatype 'a field = Omitted | JsonNull | Value 'a

fun stringify_number :: "number option \<Rightarrow> real field" where
  \<comment> \<open>a property that is a number or \<open>undefined\<close>\<close>
  "stringify_number None = Omitted"
| "stringify_number (Some (Finite x)) = Value x"
| "stringify_number (Some PosInf) = JsonNull"
| "stringify_number (Some NegInf) = JsonNull"
| "stringify_number (Some NaN) = JsonNull"

fun stringify_nullable :: "string option \<Rightarrow> string field" where
  \<comment> \<open>a property that is a string or \<open>null\<close>\<close>
  "stringify_nullable None = JsonNull"
| "stringify_nullable (Some v) = Value v"

section \<open>The style table of \<open>generate/route.ts\<close>\<close>

text \<open>
  \<open>STYLE_PRESETS\<close> is an object literal, so \<open>STYLE_PRESETS[key]\<close> finds the object's own
  five entries and, under any other key, what the object inherits from
  \<open>Object.prototype\<close>: eleven native functions and the \<open>__proto__\<close> accessor.
\<close>

datatype property = Text string | NativeFunction string | PrototypeObject

definition presets :: "(string \<times> string) list" where
  "presets =
    [(''figurative-ink'',
      ''intricate ink washes, elegant contour lines, subtle shading, gallery lighting''),
     (''digital-watercolor'',
      ''digital watercolor washes, translucent pigments, soft gradients, expressive strokes''),
     (''hyperreal-brush'',
      ''hyperreal digital painting, finely detailed skin texture, cinematic lighting, depth of field''),
     (''comic-neo'',
      ''neo-noir comic rendering, bold inked shadows, halftone highlights, dramatic perspective''),
     (''concept-art'',
      ''concept art matte painting, atmospheric depth, dynamic posing, professional artstation style'')]"

definition Object_prototype :: "(string \<times> property) list" where
  "Object_prototype =
    [(''constructor'', NativeFunction ''Object''),
     (''__defineGetter__'', NativeFunction ''__defineGetter__''),
     (''__defineSetter__'', NativeFunction ''__defineSetter__''),
     (''hasOwnProperty'', NativeFunction ''hasOwnProperty''),
     (''__lookupGetter__'', NativeFunction ''__lookupGetter__''),
     (''__lookupSetter__'', NativeFunction ''__lookupSetter__''),
     (''isPrototypeOf'', NativeFunction ''isPrototypeOf''),
     (''propertyIsEnumerable'', NativeFunction ''propertyIsEnumerable''),
     (''toString'', NativeFunction ''toString''),
     (''valueOf'', NativeFunction ''valueOf''),
     (''__proto__'', PrototypeObject),
     (''toLocaleString'', NativeFunction ''toLocaleString'')]"

definition STYLE_PRESETS :: "string \<Rightarrow> property option" where
  \<comment> \<open>\<open>STYLE_PRESETS[key]\<close>; \<open>None\<close> is \<open>undefined\<close>\<close>
  "STYLE_PRESETS key =
     (case map_of presets key of
        Some d \<Rightarrow> Some (Text d)
      | None \<Rightarrow> map_of Object_prototype key)"

fun truthy_property :: "property \<Rightarrow> bool" where
  "truthy_property (Text s) = (s \<noteq> [])"
| "truthy_property (NativeFunction n) = True"
| "truthy_property PrototypeObject = True"

fun template :: "property \<Rightarrow> string" where
  \<comment> \<open>how a template literal renders the value (the runtime is Node.js)\<close>
  "template (Text s) = s"
| "template (NativeFunction n) = ''function '' @ n @ ''() { [native code] }''"
| "template PrototypeObject = ''[object Object]''"

section \<open>The Generate endpoint (\<open>generate/route.ts\<close>)\<close>

record GenerationPayload =
  prompt :: "string option"
  negativePrompt :: "string option"
  aspectRatio :: "string option"
  style :: "string option"
  guidance :: "number option"

text \<open>The JSON document the handler posts to the image-generation service.\<close>

record stability_body =
  mode :: string
  prompt :: string
  negative_prompt :: "string option"
  aspect_ratio :: string
  output_format :: string
  cfg_scale :: number

text \<open>
  What the service answers, as far as the handler reads it. \<open>reply_json = None\<close>: the
  body is not JSON and \<open>response.json()\<close> rejects; \<open>reply_text\<close> is then what
  \<open>response.text()\<close> yields after that (\<open>None\<close> when it rejects as well).
\<close>

record stability_json =
  json_message :: "string option"
  json_error :: "string option"
  json_stringified :: string
  artifact_base64 :: "string option"
  model_id :: "string option"
  metrics_inference :: jsvalue

record stability_response =
  reply_status :: nat
  reply_json :: "stability_json option"
  reply_text :: "string option"
  header_model_id :: "string option"

definition response_ok :: "nat \<Rightarrow> bool" where
  \<comment> \<open>\<open>response.ok\<close>\<close>
  "response_ok st \<longleftrightarrow> 200 \<le> st \<and> st \<le> 299"

text \<open>
  The body of the handler's own answer as it goes out, serialised by
  \<open>NextResponse.json\<close>, and the handler's outcome: a response with its status, or an
  exception that leaves the handler uncaught.
\<close>

datatype generate_reply =
  Failure (error: string) (upstream_status: "nat option")
| Image (base64Image: string) (model: "string field") (inferenceTime: "real field")

datatype 'r outcome = Respond nat 'r | Uncaught

text \<open>An outbound request to the image-generation service: Authorization header and body.\<close>

datatype generate_call = Stability string stability_body

type_synonym environment = "string \<Rightarrow> string option"

type_synonym stability_service = "string \<Rightarrow> stability_body \<Rightarrow> stability_response option"

definition STABILITY_API_KEY :: string where
  "STABILITY_API_KEY = ''STABILITY_API_KEY''"

definition request_body :: "GenerationPayload \<Rightarrow> string \<Rightarrow> stability_body" where
  \<comment> \<open>lines 59 to 76; the second argument is the trimmed prompt\<close>
  "request_body payload prompt' =
     (let knockOut = trim (or_else (negativePrompt payload) []);
          aspectRatio' = or_else (aspectRatio payload) ''1:1'';
          cfgScale = (case guidance payload of Some g \<Rightarrow> g | None \<Rightarrow> Finite 7.5);
          stylePreset = (if falsy (style payload) then None
                         else STYLE_PRESETS (the (style payload)));
          finalPrompt = (case stylePreset of
                           None \<Rightarrow> prompt'
                         | Some p \<Rightarrow> if truthy_property p
                                     then prompt' @ '', '' @ template p else prompt')
      in \<lparr> mode = ''text-to-image'',
           prompt = finalPrompt,
           negative_prompt = (if knockOut \<noteq> [] then Some knockOut else None),
           aspect_ratio = aspectRatio',
           output_format = ''png'',
           cfg_scale = (if Number_isFinite cfgScale
                        then Math_max (Finite 1) (Math_min (Finite 20) cfgScale)
                        else Finite 7.5) \<rparr>)"

definition answer :: "stability_response \<Rightarrow> generate_reply outcome" where
  \<comment> \<open>lines 88 to 125: what the handler makes of the service's reply\<close>
  "answer response =
     (if \<not> response_ok (reply_status response) then
        (case reply_json response of
           Some errJson \<Rightarrow>
             Respond 502 (Failure
               (if \<not> falsy (json_message errJson) then the (json_message errJson)
                else if \<not> falsy (json_error errJson) then the (json_error errJson)
                else json_stringified errJson)
               (Some (reply_status response)))
         | None \<Rightarrow>
             (case reply_text response of
                Some t \<Rightarrow> Respond 502 (Failure t (Some (reply_status response)))
              | None \<Rightarrow> Uncaught))
      else
        (case reply_json response of
           None \<Rightarrow> Uncaught
         | Some json \<Rightarrow>
             if falsy (artifact_base64 json)
             then Respond 502 (Failure ''No image returned from the Stability API.'' None)
             else
               (case Number_js (metrics_inference json) of
                  None \<Rightarrow> Uncaught
                | Some n \<Rightarrow>
                    Respond 200 (Image
                      (the (artifact_base64 json))
                      (stringify_nullable
                         (case model_id json of
                            Some m \<Rightarrow> Some m
                          | None \<Rightarrow> header_model_id response))
                      (stringify_number (or_undefined n))))))"

definition POST_generate ::
  "environment \<Rightarrow> stability_service \<Rightarrow> GenerationPayload body
     \<Rightarrow> generate_reply outcome \<times> generate_call list" where
  "POST_generate env fetch request =
     (if falsy (env STABILITY_API_KEY) then
        (Respond 500 (Failure
           ''STABILITY_API_KEY is not set. Provide a valid Stability AI key via environment variables.''
           None), [])
      else case request of
        Unparseable \<Rightarrow> (Respond 400 (Failure ''Invalid JSON payload.'' None), [])
      | ParsedNull \<Rightarrow> (Uncaught, [])
      | Parsed payload \<Rightarrow>
          (let prompt' = map_option trim (GenerationPayload.prompt payload) in
           if falsy prompt' then (Respond 400 (Failure ''Prompt is required.'' None), [])
           else
             (let authorization = ''Bearer '' @ the (env STABILITY_API_KEY);
                  body = request_body payload (the prompt');
                  calls = [Stability authorization body]
              in case fetch authorization body of
                   None \<Rightarrow> (Uncaught, calls)
                 | Some response \<Rightarrow> (answer response, calls))))"

definition forwarded :: "generate_reply outcome \<times> generate_call list \<Rightarrow> stability_body option" where
  \<comment> \<open>the body of the one request the handler sent to the service, if it sent one\<close>
  "forwarded r = (case snd r of [Stability authorization b] \<Rightarrow> Some b | _ \<Rightarrow> None)"

section \<open>The Upload endpoint (\<open>upload/route.ts\<close>)\<close>

record UploadPayload =
  imageData :: "string option"
  caption :: "string option"
  prompt :: "string option"
  style :: "string option"

text \<open>
  A thrown value: an \<open>Error\<close> with its message (also the \<open>TypeError\<close> of a rejected
  \<open>fetch\<close> and the \<open>SyntaxError\<close> of a body that is not JSON), or anything else.
\<close>

datatype thrown = Error string | NotAnError

definition ensureEnv :: "string \<Rightarrow> string option \<Rightarrow> thrown + string" where
  "ensureEnv name v =
     (if falsy v
      then Inl (Error (name @ '' is not set. Please configure it in your environment.''))
      else Inr (the v))"

function decimal :: "nat \<Rightarrow> string" where
  \<comment> \<open>a non-negative integer in a template literal, and \<open>timestamp.toString()\<close>\<close>
  "decimal n =
     (if n < 10 then [''0123456789'' ! n]
      else decimal (n div 10) @ [''0123456789'' ! (n mod 10)])"
  by pat_completeness auto
termination
  by (relation "measure (\<lambda>n. n)") auto

declare decimal.simps [simp del]

text \<open>
  A vendor's reply: status, what \<open>response.text()\<close> yields and what \<open>response.json()\<close>
  yields (\<open>Inl\<close> when the promise rejects).
\<close>

record 'j reply =
  status :: nat
  body_text :: "thrown + string"
  body_json :: "thrown + 'j"

text \<open>The graph API's JSON: \<open>{ id?: string; error?: { message?: string } }\<close>.\<close>

record graph_json =
  graph_id :: "string option"
  error_message :: "string option"

type_synonym form = "(string \<times> string) list"

text \<open>
  The three outbound requests of the endpoint, with URL and body. The vendors, the
  clock and the SHA-1 digest are supplied from outside; a \<open>fetch\<close> that rejects is \<open>Inl\<close>.
\<close>

datatype upload_call =
  Cloudinary string form
| CreateContainer string form
| PublishContainer string form

record services =
  cloudinary :: "string \<Rightarrow> form \<Rightarrow> thrown + (string option) reply"
  create_container :: "string \<Rightarrow> form \<Rightarrow> thrown + graph_json reply"
  publish_container :: "string \<Rightarrow> form \<Rightarrow> thrown + graph_json reply"
  Date_now :: nat
  sha1_hex :: "string \<Rightarrow> string"

definition uploadToCloudinary ::
  "environment \<Rightarrow> services \<Rightarrow> string \<Rightarrow> (thrown + string) \<times> upload_call list" where
  "uploadToCloudinary env w imageData' =
     (case ensureEnv ''CLOUDINARY_CLOUD_NAME'' (env ''CLOUDINARY_CLOUD_NAME'') of
        Inl e \<Rightarrow> (Inl e, [])
      | Inr cloudName \<Rightarrow>
     (case ensureEnv ''CLOUDINARY_API_KEY'' (env ''CLOUDINARY_API_KEY'') of
        Inl e \<Rightarrow> (Inl e, [])
      | Inr apiKey \<Rightarrow>
     (case ensureEnv ''CLOUDINARY_API_SECRET'' (env ''CLOUDINARY_API_SECRET'') of
        Inl e \<Rightarrow> (Inl e, [])
      | Inr apiSecret \<Rightarrow>
       (let timestamp = Date_now w div 1000;
            signatureBase = ''timestamp='' @ decimal timestamp @ apiSecret;
            signature = sha1_hex w signatureBase;
            formData =
              [(''file'', ''data:image/png;base64,'' @ imageData'),
               (''api_key'', apiKey),
               (''timestamp'', decimal timestamp),
               (''signature'', signature),
               (''folder'', ''agentic-figure-studies''),
               (''tags'', ''ai,figure-study,instagram,agentic'')];
            url = ''https://api.cloudinary.com/v1_1/'' @ cloudName @ ''/image/upload'';
            calls = [Cloudinary url formData]
        in case cloudinary w url formData of
             Inl e \<Rightarrow> (Inl e, calls)
           | Inr response \<Rightarrow>
               if \<not> response_ok (status response) then
                 (case body_text response of
                    Inl e \<Rightarrow> (Inl e, calls)
                  | Inr errorText \<Rightarrow>
                      (Inl (Error (if errorText \<noteq> [] then errorText
                                   else ''Cloudinary responded with status ''
                                        @ decimal (status response))), calls))
               else
                 (case body_json response of
                    Inl e \<Rightarrow> (Inl e, calls)
                  | Inr secure_url \<Rightarrow>
                      if falsy secure_url
                      then (Inl (Error ''Cloudinary did not return a secure URL.''), calls)
                      else (Inr (the secure_url), calls))))))"

fun join :: "string \<Rightarrow> string list \<Rightarrow> string" where
  \<comment> \<open>\<open>Array.prototype.join\<close>\<close>
  "join sep [] = []"
| "join sep [x] = x"
| "join sep (x # y # ys) = x @ sep @ join sep (y # ys)"

definition hashtags :: string where
  "hashtags = ''#aiart #figuredrawing #digitalart #agentic''"

definition finalCaption :: "string option \<Rightarrow> string option \<Rightarrow> string option \<Rightarrow> string" where
  \<comment> \<open>lines 153 to 160: an array of strings and \<open>null\<close>s, \<open>filter(Boolean)\<close>, \<open>join\<close>\<close>
  "finalCaption caption' prompt' style' =
     join [CHR 0x0A, CHR 0x0A]
       (map the (filter (\<lambda>s. \<not> falsy s)
          [Some (or_else (map_option trim caption') []),
           if \<not> falsy prompt' then Some (''Prompt: '' @ the prompt') else None,
           if \<not> falsy style' then Some (''Style: '' @ the style') else None,
           Some hashtags]))"

record publishResult =
  containerId :: string
  publishId :: string

definition publishToInstagram ::
  "environment \<Rightarrow> services \<Rightarrow> string \<Rightarrow> string option \<Rightarrow> string option \<Rightarrow> string option
     \<Rightarrow> (thrown + publishResult) \<times> upload_call list" where
  "publishToInstagram env w imageUrl' caption' prompt' style' =
     (case ensureEnv ''INSTAGRAM_ACCESS_TOKEN'' (env ''INSTAGRAM_ACCESS_TOKEN'') of
        Inl e \<Rightarrow> (Inl e, [])
      | Inr accessToken \<Rightarrow>
     (case ensureEnv ''INSTAGRAM_IG_USER_ID'' (env ''INSTAGRAM_IG_USER_ID'') of
        Inl e \<Rightarrow> (Inl e, [])
      | Inr igUserId \<Rightarrow>
       (let containerParams =
              [(''access_token'', accessToken),
               (''image_url'', imageUrl'),
               (''caption'', finalCaption caption' prompt' style')];
            containerUrl = ''https://graph.facebook.com/v19.0/'' @ igUserId @ ''/media'';
            calls = [CreateContainer containerUrl containerParams]
        in case create_container w containerUrl containerParams of
             Inl e \<Rightarrow> (Inl e, calls)
           | Inr containerResponse \<Rightarrow>
        (case body_json containerResponse of
             Inl e \<Rightarrow> (Inl e, calls)
           | Inr containerJson \<Rightarrow>
               if \<not> response_ok (status containerResponse) \<or> falsy (graph_id containerJson)
               then (Inl (Error
                       (if \<not> falsy (error_message containerJson)
                        then the (error_message containerJson)
                        else ''Failed to create Instagram media container (''
                             @ decimal (status containerResponse) @ '').'')), calls)
               else
                 (let publishParams =
                        [(''access_token'', accessToken),
                         (''creation_id'', the (graph_id containerJson))];
                      publishUrl =
                        ''https://graph.facebook.com/v19.0/'' @ igUserId @ ''/media_publish'';
                      calls' = calls @ [PublishContainer publishUrl publishParams]
                  in case publish_container w publishUrl publishParams of
                       Inl e \<Rightarrow> (Inl e, calls')
                     | Inr publishResponse \<Rightarrow>
                  (case body_json publishResponse of
                       Inl e \<Rightarrow> (Inl e, calls')
                     | Inr publishJson \<Rightarrow>
                         if \<not> response_ok (status publishResponse)
                            \<or> falsy (graph_id publishJson)
                         then (Inl (Error
                                 (if \<not> falsy (error_message publishJson)
                                  then the (error_message publishJson)
                                  else ''Failed to publish Instagram media (''
                                       @ decimal (status publishResponse) @ '').'')), calls')
                         else (Inr \<lparr> containerId = the (graph_id containerJson),
                                     publishId = the (graph_id publishJson) \<rparr>, calls')))))))"

datatype upload_reply =
  Rejected (error: string) (imageUrl: "string option")
| Published publishResult (imageUrl: "string option")

definition POST_upload ::
  "environment \<Rightarrow> services \<Rightarrow> UploadPayload body \<Rightarrow> upload_reply outcome \<times> upload_call list" where
  "POST_upload env w request =
     (case request of
        Unparseable \<Rightarrow> (Respond 400 (Rejected ''Invalid JSON payload.'' None), [])
      | ParsedNull \<Rightarrow> (Uncaught, [])
      | Parsed payload \<Rightarrow>
          if falsy (imageData payload)
          then (Respond 400 (Rejected ''imageData is required.'' None), [])
          else
            (case uploadToCloudinary env w (the (imageData payload)) of
               (Inl e, calls) \<Rightarrow>
                 (Respond 502 (Rejected
                    (case e of Error m \<Rightarrow> ''Cloudinary upload failed: '' @ m
                             | NotAnError \<Rightarrow> ''Cloudinary upload failed.'')
                    None), calls)
             | (Inr cloudinaryUrl, calls) \<Rightarrow>
                 (case publishToInstagram env w cloudinaryUrl (caption payload)
                         (UploadPayload.prompt payload) (UploadPayload.style payload) of
                    (Inl e, calls') \<Rightarrow>
                      (Respond 502 (Rejected
                         (case e of Error m \<Rightarrow> ''Instagram publish failed: '' @ m
                                  | NotAnError \<Rightarrow> ''Instagram publish failed.'')
                         (Some cloudinaryUrl)), calls @ calls')
                  | (Inr result, calls') \<Rightarrow>
                      (Respond 200 (Published result (Some cloudinaryUrl)), calls @ calls'))))"

fun is_publish_call :: "upload_call \<Rightarrow> bool" where
  "is_publish_call (Cloudinary url f) = False"
| "is_publish_call (CreateContainer url f) = True"
| "is_publish_call (PublishContainer url f) = True"

section \<open>Concrete environments, services and requests\<close>

definition unconfigured :: environment where
  "unconfigured = map_of []"

definition configured :: environment where
  "configured = map_of [(''STABILITY_API_KEY'', ''sk-test'')]"

definition offline :: stability_service where
  "offline authorization b = None"

definition vendor_with_metric :: "jsvalue \<Rightarrow> stability_service" where
  "vendor_with_metric v authorization b =
     Some \<lparr> reply_status = 200,
            reply_json = Some \<lparr> json_message = None, json_error = None,
                                json_stringified = ''{}'',
                                artifact_base64 = Some ''iVBORw0KGgo='',
                                model_id = None, metrics_inference = v \<rparr>,
            reply_text = None,
            header_model_id = None \<rparr>"

definition figure_request :: GenerationPayload where
  "figure_request =
     \<lparr> GenerationPayload.prompt = Some ''a figure'', negativePrompt = None,
       aspectRatio = None, style = None, guidance = None \<rparr>"

definition hosting_env :: environment where
  "hosting_env =
     map_of [(''CLOUDINARY_CLOUD_NAME'', ''demo''),
             (''CLOUDINARY_API_KEY'', ''1234''),
             (''CLOUDINARY_API_SECRET'', ''s3cret'')]"

definition graph_down :: "string \<Rightarrow> form \<Rightarrow> thrown + graph_json reply" where
  "graph_down url params = Inl (Error ''fetch failed'')"

definition digest_stub :: "string \<Rightarrow> string" where
  "digest_stub s = ''da39a3ee5e6b4b0d3255bfef95601890afd80709''"

definition hosting_ok :: "string \<Rightarrow> form \<Rightarrow> thrown + (string option) reply" where
  "hosting_ok url formData =
     Inr \<lparr> status = 200,
           body_text = Inr ''(json)'',
           body_json = Inr (Some ''https://res.cloudinary.com/demo/figure.png'') \<rparr>"

definition hosting_refuses :: "string \<Rightarrow> form \<Rightarrow> thrown + (string option) reply" where
  "hosting_refuses url formData =
     Inr \<lparr> status = 401,
           body_text = Inr ''Invalid signature'',
           body_json = Inl (Error ''Unexpected token I in JSON at position 0'') \<rparr>"

definition hosting_up :: services where
  "hosting_up =
     \<lparr> cloudinary = hosting_ok, create_container = graph_down,
       publish_container = graph_down, Date_now = 5000, sha1_hex = digest_stub \<rparr>"

definition hosting_down :: services where
  "hosting_down =
     \<lparr> cloudinary = hosting_refuses, create_container = graph_down,
       publish_container = graph_down, Date_now = 5000, sha1_hex = digest_stub \<rparr>"

definition study_upload :: UploadPayload where
  "study_upload =
     \<lparr> imageData = Some ''iVBORw0KGgo='', caption = Some ''A'',
       UploadPayload.prompt = Some ''B'', UploadPayload.style = Some ''C'' \<rparr>"

section \<open>Properties of the Generate endpoint\<close>







text \<open>
  Claim C9 as written fails on the Generate endpoint: without the credential, a body
  that is not JSON is answered with status 500, since the credential is tested first.
\<close>

theorem generate_unparseable_without_key:
  "POST_generate unconfigured offline Unparseable
   = (Respond 500 (Failure
        ''STABILITY_API_KEY is not set. Provide a valid Stability AI key via environment variables.''
        None), [])"
  by (simp add: POST_generate_def unconfigured_def falsy_def)

lemma forwarded_body:
  assumes "\<not> falsy (env STABILITY_API_KEY)"
    and "GenerationPayload.prompt payload = Some p" and "trim p \<noteq> []"
  shows "forwarded (POST_generate env fetch (Parsed payload)) = Some (request_body payload (trim p))"
  using assms
  by (simp add: POST_generate_def forwarded_def falsy_def Let_def split: option.splits)

lemma cfg_scale_request_body:
  "cfg_scale (request_body payload q)
   = (case guidance payload of
        None \<Rightarrow> Finite 7.5
      | Some (Finite g) \<Rightarrow> Finite (if g < 1 then 1 else if 20 < g then 20 else g)
      | Some _ \<Rightarrow> Finite 7.5)"
  by (simp add: request_body_def Let_def split: option.splits number.splits)

text \<open>
  Claim C6: whenever the handler calls the service (credential configured, prompt not
  blank), the \<open>cfg_scale\<close> it sends is 7.5 when \<open>guidance\<close> is absent or not finite, and
  otherwise \<open>guidance\<close> clamped into the interval from 1 to 20.
\<close>

theorem cfg_scale_forwarded:
  assumes "\<not> falsy (env STABILITY_API_KEY)"
    and "GenerationPayload.prompt payload = Some p" and "trim p \<noteq> []"
  shows "map_option cfg_scale (forwarded (POST_generate env fetch (Parsed payload)))
         = Some (case guidance payload of
                   None \<Rightarrow> Finite 7.5
                 | Some (Finite g) \<Rightarrow> Finite (if g < 1 then 1 else if 20 < g then 20 else g)
                 | Some _ \<Rightarrow> Finite 7.5)"
  using forwarded_body [of env payload p fetch] assms
  by (simp add: cfg_scale_request_body)

theorem cfg_scale_forwarded_witness:
  "\<not> falsy (configured STABILITY_API_KEY)
   \<and> trim ''a figure'' \<noteq> []
   \<and> map_option cfg_scale (forwarded (POST_generate configured offline
        (Parsed (figure_request\<lparr> guidance := Some (Finite 25) \<rparr>)))) = Some (Finite 20)
   \<and> map_option cfg_scale (forwarded (POST_generate configured offline
        (Parsed (figure_request\<lparr> guidance := Some (Finite 0.5) \<rparr>)))) = Some (Finite 1)
   \<and> map_option cfg_scale (forwarded (POST_generate configured offline
        (Parsed (figure_request\<lparr> guidance := Some (Finite 12) \<rparr>)))) = Some (Finite 12)
   \<and> map_option cfg_scale (forwarded (POST_generate configured offline
        (Parsed (figure_request\<lparr> guidance := Some PosInf \<rparr>)))) = Some (Finite 7.5)
   \<and> map_option cfg_scale (forwarded (POST_generate configured offline
        (Parsed figure_request))) = Some (Finite 7.5)"
proof -
  have k: "\<not> falsy (configured STABILITY_API_KEY)"
    by (simp add: configured_def STABILITY_API_KEY_def falsy_def)
  have t: "trim ''a figure'' \<noteq> []"
    by (simp add: trim_def isWhiteSpace_def)
  have p: "GenerationPayload.prompt (figure_request\<lparr> guidance := g \<rparr>) = Some ''a figure''" for g
    by (simp add: figure_request_def)
  have q: "GenerationPayload.prompt figure_request = Some ''a figure''"
    by (simp add: figure_request_def)
  have g0: "guidance figure_request = None"
    by (simp add: figure_request_def)
  note c = cfg_scale_forwarded [where env = configured and p = "''a figure''" and fetch = offline]
  from c [OF k p t, of "Some (Finite 25)"] c [OF k p t, of "Some (Finite 0.5)"]
    c [OF k p t, of "Some (Finite 12)"] c [OF k p t, of "Some PosInf"]
    c [OF k q t] g0 k t
  show ?thesis by simp
qed

text \<open>
  Claim C5 fails on the code for a style key that names a member of \<open>Object.prototype\<close>:
  the key \<open>constructor\<close> is none of the five presets, yet the lookup finds the inherited
  \<open>Object\<close> function, which is truthy, and its source text is appended to the prompt.
\<close>

theorem inherited_style_key_alters_prompt:
  "map_option stability_body.prompt (forwarded (POST_generate configured offline
      (Parsed (figure_request\<lparr> GenerationPayload.style := Some ''constructor'' \<rparr>))))
   = Some ''a figure, function Object() { [native code] }''"
  by (simp add: POST_generate_def forwarded_def request_body_def figure_request_def
      configured_def offline_def STABILITY_API_KEY_def falsy_def trim_def isWhiteSpace_def
      STYLE_PRESETS_def presets_def Object_prototype_def)

text \<open>
  What the handler forwards as prompt, for every style key: the descriptor is appended
  for the five presets, the prompt is unchanged for an absent or empty key and for a key
  found neither in the table nor in \<open>Object.prototype\<close>.
\<close>

lemma style_resolution:
  "stability_body.prompt (request_body payload q)
   = (case GenerationPayload.style payload of
        None \<Rightarrow> q
      | Some k \<Rightarrow>
          (case map_of presets k of
             Some d \<Rightarrow> q @ '', '' @ d
           | None \<Rightarrow>
               (case map_of Object_prototype k of
                  None \<Rightarrow> q
                | Some inherited \<Rightarrow> q @ '', '' @ template inherited)))"
proof -
  have own: "d \<noteq> []" if "map_of presets k = Some d" for k d
    using that by (auto simp: presets_def split: if_splits)
  have inh: "truthy_property i" if "map_of Object_prototype k = Some i" for k i
    using that by (auto simp: Object_prototype_def split: if_splits)
  have emp: "map_of presets [] = None" "map_of Object_prototype [] = None"
    by (simp_all add: presets_def Object_prototype_def)
  show ?thesis
    by (auto simp: request_body_def Let_def falsy_def STYLE_PRESETS_def emp
        dest: own inh split: option.splits)
qed

text \<open>
  Claim C8 as written fails: an \<open>aspectRatio\<close> that is the empty string is supplied, yet
  \<open>1:1\<close> is forwarded in its place.
\<close>

theorem empty_aspect_ratio_replaced:
  "aspectRatio (figure_request\<lparr> aspectRatio := Some [] \<rparr>) = Some []
   \<and> map_option aspect_ratio (forwarded (POST_generate configured offline
        (Parsed (figure_request\<lparr> aspectRatio := Some [] \<rparr>)))) = Some ''1:1''"
  by (simp add: POST_generate_def forwarded_def request_body_def figure_request_def
      configured_def offline_def STABILITY_API_KEY_def falsy_def trim_def isWhiteSpace_def
      or_else_def)

text \<open>
  Claim C8, amended: whenever the handler calls the service, the \<open>aspect_ratio\<close> it sends
  is \<open>1:1\<close> when \<open>aspectRatio\<close> is absent or empty, and otherwise the supplied string as
  it is, whatever it is.
\<close>

theorem aspect_ratio_forwarded:
  assumes "\<not> falsy (env STABILITY_API_KEY)"
    and "GenerationPayload.prompt payload = Some p" and "trim p \<noteq> []"
  shows "map_option aspect_ratio (forwarded (POST_generate env fetch (Parsed payload)))
         = Some (case aspectRatio payload of
                   None \<Rightarrow> ''1:1''
                 | Some a \<Rightarrow> if a = [] then ''1:1'' else a)"
  using forwarded_body [of env payload p fetch] assms
  by (simp add: request_body_def Let_def or_else_def split: option.splits)

theorem aspect_ratio_forwarded_witness:
  "\<not> falsy (configured STABILITY_API_KEY)
   \<and> trim ''a figure'' \<noteq> []
   \<and> map_option aspect_ratio (forwarded (POST_generate configured offline
        (Parsed (figure_request\<lparr> aspectRatio := Some ''banana'' \<rparr>)))) = Some ''banana''
   \<and> map_option aspect_ratio (forwarded (POST_generate configured offline
        (Parsed figure_request))) = Some ''1:1''"
proof -
  have k: "\<not> falsy (configured STABILITY_API_KEY)"
    by (simp add: configured_def STABILITY_API_KEY_def falsy_def)
  have t: "trim ''a figure'' \<noteq> []"
    by (simp add: trim_def isWhiteSpace_def)
  have p: "GenerationPayload.prompt (figure_request\<lparr> aspectRatio := a \<rparr>) = Some ''a figure''" for a
    by (simp add: figure_request_def)
  have q: "GenerationPayload.prompt figure_request = Some ''a figure''"
    by (simp add: figure_request_def)
  have a0: "aspectRatio figure_request = None"
    by (simp add: figure_request_def)
  note c = aspect_ratio_forwarded [where env = configured and p = "''a figure''" and fetch = offline]
  from c [OF k p t, of "Some ''banana''"] c [OF k q t] a0 k t
  show ?thesis by simp
qed

lemma inference_time_cases:
  "stringify_number (or_undefined n)
   = (case n of Finite x \<Rightarrow> if x = 0 then Omitted else Value x
              | NaN \<Rightarrow> Omitted
              | _ \<Rightarrow> JsonNull)"
  by (cases n) (simp_all add: or_undefined_def)

text \<open>
  Claim C10 as written fails: a metric that converts to \<open>Infinity\<close> (the JSON number
  \<open>1e999\<close>) is not a finite number, yet the success response does not leave
  \<open>inferenceTime\<close> out: the property is there, with the value \<open>null\<close>.
\<close>

theorem infinite_metric_reported:
  "Number_js (Num PosInf) = Some PosInf \<and> \<not> Number_isFinite PosInf
   \<and> fst (POST_generate configured (vendor_with_metric (Num PosInf)) (Parsed figure_request))
     = Respond 200 (Image ''iVBORw0KGgo='' JsonNull JsonNull)
   \<and> inferenceTime (Image ''iVBORw0KGgo='' JsonNull JsonNull) \<noteq> Omitted"
  by (simp add: POST_generate_def answer_def figure_request_def vendor_with_metric_def
      configured_def STABILITY_API_KEY_def falsy_def trim_def isWhiteSpace_def
      response_ok_def or_undefined_def)

text \<open>
  Claim C10, amended: in every success response of the Generate endpoint,
  \<open>inferenceTime\<close> is left out exactly when the vendor's metric converts to 0 or to
  \<open>NaN\<close>; it is that number when the metric converts to a finite number other than 0,
  and it is there with the value \<open>null\<close> when the metric converts to an infinite number.
  (A metric whose conversion throws gives no success response.)
\<close>

theorem inference_time_reported:
  assumes "POST_generate env fetch request = (Respond 200 reply, calls)"
  shows "\<exists>authorization b response json n img mdl.
           calls = [Stability authorization b]
           \<and> fetch authorization b = Some response
           \<and> reply_json response = Some json
           \<and> Number_js (metrics_inference json) = Some n
           \<and> reply = Image img mdl
               (case n of
                  Finite x \<Rightarrow> if x = 0 then Omitted else Value x
                | NaN \<Rightarrow> Omitted
                | _ \<Rightarrow> JsonNull)"
  using assms
  by (auto simp: POST_generate_def answer_def Let_def inference_time_cases
      split: if_splits body.splits option.splits)

theorem inference_time_reported_witness:
  "POST_generate configured (vendor_with_metric (Num (Finite 2))) (Parsed figure_request)
     = (Respond 200 (Image ''iVBORw0KGgo='' JsonNull (Value 2)),
        [Stability ''Bearer sk-test'' (request_body figure_request ''a figure'')])
   \<and> (\<exists>authorization b response json n img mdl.
         [Stability ''Bearer sk-test'' (request_body figure_request ''a figure'')]
           = [Stability authorization b]
         \<and> vendor_with_metric (Num (Finite 2)) authorization b = Some response
         \<and> reply_json response = Some json
         \<and> Number_js (metrics_inference json) = Some n
         \<and> Image ''iVBORw0KGgo='' JsonNull (Value 2) = Image img mdl
             (case n of
                Finite x \<Rightarrow> if x = 0 then Omitted else Value x
              | NaN \<Rightarrow> Omitted
              | _ \<Rightarrow> JsonNull))"
proof -
  have h: "POST_generate configured (vendor_with_metric (Num (Finite 2))) (Parsed figure_request)
     = (Respond 200 (Image ''iVBORw0KGgo='' JsonNull (Value 2)),
        [Stability ''Bearer sk-test'' (request_body figure_request ''a figure'')])"
    by (simp add: POST_generate_def answer_def figure_request_def vendor_with_metric_def
      configured_def STABILITY_API_KEY_def falsy_def trim_def isWhiteSpace_def
      response_ok_def or_undefined_def)
  from inference_time_reported [OF h] h show ?thesis
    by simp
qed

section \<open>Properties of the Upload endpoint\<close>

lemma hosting_calls:
  "\<forall>c\<in>set (snd (uploadToCloudinary env w d)). \<not> is_publish_call c"
  by (simp add: uploadToCloudinary_def Let_def split: sum.splits)

text \<open>
  Claim C2: the caption is the non-empty segments (trimmed caption, \<open>Prompt: \<dots>\<close>,
  \<open>Style: \<dots>\<close>, hashtag line) joined by blank lines. For caption A, prompt B and style C
  it is the text given in the claim; a caption that is absent or blank contributes no
  leading segment; the hashtag line always ends the result.
\<close>

theorem caption_composition:
  "finalCaption (Some ''A'') (Some ''B'') (Some ''C'')
     = ''A\<newline>\<newline>Prompt: B\<newline>\<newline>Style: C\<newline>\<newline>#aiart #figuredrawing #digitalart #agentic''
   \<and> finalCaption c p s
     = join ''\<newline>\<newline>''
         ((case c of None \<Rightarrow> [] | Some t \<Rightarrow> if trim t = [] then [] else [trim t])
          @ (case p of None \<Rightarrow> [] | Some t \<Rightarrow> if t = [] then [] else [''Prompt: '' @ t])
          @ (case s of None \<Rightarrow> [] | Some t \<Rightarrow> if t = [] then [] else [''Style: '' @ t])
          @ [''#aiart #figuredrawing #digitalart #agentic''])
   \<and> ((c = None \<or> (\<exists>t. c = Some t \<and> trim t = [])) \<longrightarrow>
        finalCaption c p s
        = join ''\<newline>\<newline>''
            ((case p of None \<Rightarrow> [] | Some t \<Rightarrow> if t = [] then [] else [''Prompt: '' @ t])
             @ (case s of None \<Rightarrow> [] | Some t \<Rightarrow> if t = [] then [] else [''Style: '' @ t])
             @ [''#aiart #figuredrawing #digitalart #agentic'']))
   \<and> suffix ''#aiart #figuredrawing #digitalart #agentic'' (finalCaption c p s)"
proof -
  have ex: "finalCaption (Some ''A'') (Some ''B'') (Some ''C'')
     = ''A\<newline>\<newline>Prompt: B\<newline>\<newline>Style: C\<newline>\<newline>#aiart #figuredrawing #digitalart #agentic''"
    by (simp add: finalCaption_def falsy_def or_else_def trim_def isWhiteSpace_def hashtags_def)
  have gen: "finalCaption c p s
     = join ''\<newline>\<newline>''
         ((case c of None \<Rightarrow> [] | Some t \<Rightarrow> if trim t = [] then [] else [trim t])
          @ (case p of None \<Rightarrow> [] | Some t \<Rightarrow> if t = [] then [] else [''Prompt: '' @ t])
          @ (case s of None \<Rightarrow> [] | Some t \<Rightarrow> if t = [] then [] else [''Style: '' @ t])
          @ [''#aiart #figuredrawing #digitalart #agentic''])" for c
    by (simp add: finalCaption_def falsy_def or_else_def hashtags_def split: option.splits)
  have last_seg: "suffix h (join sep (xs @ [h]))" for h sep xs
    by (induction sep xs rule: join.induct) (auto simp: suffix_def)
  have suf: "suffix ''#aiart #figuredrawing #digitalart #agentic'' (finalCaption c p s)"
    unfolding gen by (simp only: append_assoc [symmetric] last_seg)
  from ex gen suf show ?thesis
    by auto
qed

theorem caption_composition_witness:
  "trim '' '' = []
   \<and> finalCaption (Some '' '') (Some ''B'') None
     = ''Prompt: B\<newline>\<newline>#aiart #figuredrawing #digitalart #agentic''
   \<and> finalCaption None None None = ''#aiart #figuredrawing #digitalart #agentic''"
proof -
  have t: "trim '' '' = []"
    by (simp add: trim_def isWhiteSpace_def)
  from caption_composition [of "Some '' ''" "Some ''B''" None]
    caption_composition [of None None None] t
  show ?thesis by simp
qed




text \<open>
  Claim C4: when the asset-hosting step throws, the Upload endpoint answers with status
  502 and none of its outbound requests is a container creation or a publication.
\<close>

theorem hosting_failure_skips_publish:
  assumes "\<not> falsy (imageData payload)"
    and "fst (uploadToCloudinary env w (the (imageData payload))) = Inl e"
  shows "fst (POST_upload env w (Parsed payload))
         = Respond 502 (Rejected
             (case e of Error m \<Rightarrow> ''Cloudinary upload failed: '' @ m
                      | NotAnError \<Rightarrow> ''Cloudinary upload failed.'') None)
         \<and> (\<forall>c\<in>set (snd (POST_upload env w (Parsed payload))). \<not> is_publish_call c)"
proof -
  obtain calls where u: "uploadToCloudinary env w (the (imageData payload)) = (Inl e, calls)"
    using assms(2) by (cases "uploadToCloudinary env w (the (imageData payload))") simp
  have r: "POST_upload env w (Parsed payload)
           = (Respond 502 (Rejected
               (case e of Error m \<Rightarrow> ''Cloudinary upload failed: '' @ m
                        | NotAnError \<Rightarrow> ''Cloudinary upload failed.'') None), calls)"
    using assms(1) u by (simp add: POST_upload_def)
  from hosting_calls [of env w "the (imageData payload)"] u
  have "\<forall>c\<in>set calls. \<not> is_publish_call c"
    by simp
  with r show ?thesis by simp
qed

theorem hosting_failure_skips_publish_witness:
  "\<not> falsy (imageData study_upload)
   \<and> fst (uploadToCloudinary hosting_env hosting_down (the (imageData study_upload)))
     = Inl (Error ''Invalid signature'')
   \<and> fst (POST_upload hosting_env hosting_down (Parsed study_upload))
     = Respond 502 (Rejected ''Cloudinary upload failed: Invalid signature'' None)
   \<and> filter is_publish_call (snd (POST_upload hosting_env hosting_down (Parsed study_upload)))
     = []"
proof -
  have h1: "\<not> falsy (imageData study_upload)"
    by (simp add: study_upload_def falsy_def)
  have h2: "fst (uploadToCloudinary hosting_env hosting_down (the (imageData study_upload)))
            = Inl (Error ''Invalid signature'')"
    by (simp add: uploadToCloudinary_def ensureEnv_def hosting_env_def hosting_down_def
        hosting_refuses_def study_upload_def falsy_def response_ok_def)
  from hosting_failure_skips_publish [OF h1 h2] h1 h2 show ?thesis
    by (simp add: filter_empty_conv)
qed

text \<open>
  Claim C3: when the asset-hosting step yields a URL and the publish step throws,
  whatever it throws, the 502 response carries that URL as \<open>imageUrl\<close>.
\<close>

theorem publish_failure_keeps_hosted_url:
  assumes "\<not> falsy (imageData payload)"
    and "fst (uploadToCloudinary env w (the (imageData payload))) = Inr url"
    and "fst (publishToInstagram env w url (caption payload)
                (UploadPayload.prompt payload) (UploadPayload.style payload)) = Inl e"
  shows "fst (POST_upload env w (Parsed payload))
         = Respond 502 (Rejected
             (case e of Error m \<Rightarrow> ''Instagram publish failed: '' @ m
                      | NotAnError \<Rightarrow> ''Instagram publish failed.'') (Some url))"
proof -
  obtain calls where u: "uploadToCloudinary env w (the (imageData payload)) = (Inr url, calls)"
    using assms(2) by (cases "uploadToCloudinary env w (the (imageData payload))") simp
  obtain calls' where p: "publishToInstagram env w url (caption payload)
      (UploadPayload.prompt payload) (UploadPayload.style payload) = (Inl e, calls')"
    using assms(3)
    by (cases "publishToInstagram env w url (caption payload)
      (UploadPayload.prompt payload) (UploadPayload.style payload)") simp
  from assms(1) u p show ?thesis
    by (simp add: POST_upload_def)
qed

theorem publish_failure_keeps_hosted_url_witness:
  "\<not> falsy (imageData study_upload)
   \<and> fst (uploadToCloudinary hosting_env hosting_up (the (imageData study_upload)))
     = Inr ''https://res.cloudinary.com/demo/figure.png''
   \<and> fst (publishToInstagram hosting_env hosting_up ''https://res.cloudinary.com/demo/figure.png''
            (caption study_upload) (UploadPayload.prompt study_upload)
            (UploadPayload.style study_upload))
     = Inl (Error ''INSTAGRAM_ACCESS_TOKEN is not set. Please configure it in your environment.'')
   \<and> fst (POST_upload hosting_env hosting_up (Parsed study_upload))
     = Respond 502 (Rejected
         ''Instagram publish failed: INSTAGRAM_ACCESS_TOKEN is not set. Please configure it in your environment.''
         (Some ''https://res.cloudinary.com/demo/figure.png''))"
proof -
  have h1: "\<not> falsy (imageData study_upload)"
    by (simp add: study_upload_def falsy_def)
  have h2: "fst (uploadToCloudinary hosting_env hosting_up (the (imageData study_upload)))
            = Inr ''https://res.cloudinary.com/demo/figure.png''"
    by (simp add: uploadToCloudinary_def ensureEnv_def hosting_env_def hosting_up_def
        hosting_ok_def study_upload_def falsy_def response_ok_def)
  have h3: "fst (publishToInstagram hosting_env hosting_up ''https://res.cloudinary.com/demo/figure.png''
            (caption study_upload) (UploadPayload.prompt study_upload)
            (UploadPayload.style study_upload))
     = Inl (Error ''INSTAGRAM_ACCESS_TOKEN is not set. Please configure it in your environment.'')"
    by (simp add: publishToInstagram_def ensureEnv_def hosting_env_def falsy_def)
  from publish_failure_keeps_hosted_url [OF h1 h2 h3] h1 h2 h3 show ?thesis
    by simp
qed

text \<open>
  Claim C9, amended: a body that is not JSON is answered by the Upload endpoint with
  status 400 and \<open>Invalid JSON payload.\<close>, with no outbound request; the Generate endpoint
  answers likewise when its credential is configured, and with status 500 and the
  configuration message when it is not, with no outbound request either way.
\<close>

theorem unparseable_body_rejected:
  "POST_upload env w Unparseable = (Respond 400 (Rejected ''Invalid JSON payload.'' None), [])
   \<and> POST_generate env' fetch Unparseable
     = (if falsy (env' STABILITY_API_KEY)
        then Respond 500 (Failure
          ''STABILITY_API_KEY is not set. Provide a valid Stability AI key via environment variables.''
          None)
        else Respond 400 (Failure ''Invalid JSON payload.'' None), [])"
  by (simp add: POST_upload_def POST_generate_def)

theorem unparseable_body_rejected_witness:
  "POST_upload unconfigured hosting_up Unparseable
     = (Respond 400 (Rejected ''Invalid JSON payload.'' None), [])
   \<and> POST_generate configured offline Unparseable
     = (Respond 400 (Failure ''Invalid JSON payload.'' None), [])"
proof -
  have k: "\<not> falsy (configured STABILITY_API_KEY)"
    by (simp add: configured_def STABILITY_API_KEY_def falsy_def)
  from unparseable_body_rejected [of unconfigured hosting_up configured offline] k
  show ?thesis by simp
qed

end
